theory Spec2Isabelle
  imports Complex_Main "HOL-Library.AList"
begin

section \<open>JavaScript numbers as the program uses them\<close>

text \<open>
  The program \<^verbatim>\<open>src/app.js\<close> computes with JavaScript Numbers. A Number is
  modelled by its value class: not-a-number, the two infinities, negative zero, and a
  finite value. \<open>Fin 0\<close> is positive zero. A finite value is kept as an exact rational
  and arithmetic on finite values is exact: neither the rounding of each operation to
  the nearest binary64 value nor overflow beyond the binary64 range is part of this
  model. The values that decide the program's branches (not-a-number, the infinities,
  the sign, the two-decimal results of \<^verbatim>\<open>round\<close>) are kept apart.
\<close>

datatype jsnum = NaN | PInf | NInf | NZero | Fin rat

fun isNeg :: "jsnum \<Rightarrow> bool" where
  "isNeg NInf = True"
| "isNeg NZero = True"
| "isNeg (Fin q) = (q < 0)"
| "isNeg _ = False"

fun isZero :: "jsnum \<Rightarrow> bool" where
  "isZero NZero = True"
| "isZero (Fin q) = (q = 0)"
| "isZero _ = False"

fun isInf :: "jsnum \<Rightarrow> bool" where
  "isInf PInf = True"
| "isInf NInf = True"
| "isInf _ = False"

fun val :: "jsnum \<Rightarrow> rat" where
  "val (Fin q) = q"
| "val _ = 0"

definition signed_zero :: "bool \<Rightarrow> jsnum" where
  "signed_zero neg = (if neg then NZero else Fin 0)"

definition signed_inf :: "bool \<Rightarrow> jsnum" where
  "signed_inf neg = (if neg then NInf else PInf)"

text \<open>Unary minus flips the sign, also of a zero.\<close>

fun jsneg :: "jsnum \<Rightarrow> jsnum" where
  "jsneg NaN = NaN"
| "jsneg PInf = NInf"
| "jsneg NInf = PInf"
| "jsneg NZero = Fin 0"
| "jsneg (Fin q) = (if q = 0 then NZero else Fin (- q))"

text \<open>
  \<^verbatim>\<open>a + b\<close> on Numbers: not-a-number is contagious, opposite infinities give
  not-a-number, a sum of two negative zeros is negative zero and every other zero sum is
  positive zero.
\<close>

fun jsadd :: "jsnum \<Rightarrow> jsnum \<Rightarrow> jsnum" where
  "jsadd NaN _ = NaN"
| "jsadd _ NaN = NaN"
| "jsadd PInf NInf = NaN"
| "jsadd NInf PInf = NaN"
| "jsadd PInf _ = PInf"
| "jsadd _ PInf = PInf"
| "jsadd NInf _ = NInf"
| "jsadd _ NInf = NInf"
| "jsadd NZero NZero = NZero"
| "jsadd NZero (Fin q) = Fin q"
| "jsadd (Fin q) NZero = Fin q"
| "jsadd (Fin a) (Fin b) = Fin (a + b)"

definition jssub :: "jsnum \<Rightarrow> jsnum \<Rightarrow> jsnum" where
  "jssub a b = jsadd a (jsneg b)"

text \<open>\<^verbatim>\<open>a * b\<close>: infinity times zero is not-a-number; the sign of a zero or an
  infinite product is the exclusive or of the operands' signs.\<close>

definition jsmul :: "jsnum \<Rightarrow> jsnum \<Rightarrow> jsnum" where
  "jsmul a b =
     (if a = NaN \<or> b = NaN then NaN
      else if (isInf a \<and> isZero b) \<or> (isZero a \<and> isInf b) then NaN
      else if isInf a \<or> isInf b then signed_inf (isNeg a \<noteq> isNeg b)
      else if isZero a \<or> isZero b then signed_zero (isNeg a \<noteq> isNeg b)
      else Fin (val a * val b))"

text \<open>\<^verbatim>\<open>a / b\<close>: a non-zero value divided by a zero is an infinity, zero by zero and
  infinity by infinity are not-a-number, a finite value divided by an infinity is a zero.\<close>

definition jsdiv :: "jsnum \<Rightarrow> jsnum \<Rightarrow> jsnum" where
  "jsdiv a b =
     (if a = NaN \<or> b = NaN then NaN
      else if (isInf a \<and> isInf b) \<or> (isZero a \<and> isZero b) then NaN
      else if isInf a \<or> isZero b then signed_inf (isNeg a \<noteq> isNeg b)
      else if isInf b \<or> isZero a then signed_zero (isNeg a \<noteq> isNeg b)
      else Fin (val a / val b))"

text \<open>\<^verbatim>\<open>a < b\<close> is false as soon as one side is not-a-number; the two zeros compare
  equal.\<close>

fun jslt :: "jsnum \<Rightarrow> jsnum \<Rightarrow> bool" where
  "jslt NaN _ = False"
| "jslt _ NaN = False"
| "jslt PInf _ = False"
| "jslt _ NInf = False"
| "jslt NInf _ = True"
| "jslt _ PInf = True"
| "jslt a b = (val a < val b)"

text \<open>\<^verbatim>\<open>a == b\<close> on two Numbers.\<close>

definition jseq :: "jsnum \<Rightarrow> jsnum \<Rightarrow> bool" where
  "jseq a b = (a \<noteq> NaN \<and> b \<noteq> NaN \<and> (a = b \<or> (isZero a \<and> isZero b)))"

text \<open>
  \<^verbatim>\<open>Math.round(x)\<close>: the integer closest to \<open>x\<close>, a tie going toward plus
  infinity; a value in \<open>[-0.5, 0)\<close> gives negative zero; not-a-number, the infinities
  and the zeros are returned as they are.
\<close>

fun mathRound :: "jsnum \<Rightarrow> jsnum" where
  "mathRound (Fin q) =
     (let n = \<lfloor>q + 1 / 2\<rfloor> in if n = 0 \<and> q < 0 then NZero else Fin (of_int n))"
| "mathRound x = x"

subsection \<open>Numbers to text and back\<close>

text \<open>
  \<^verbatim>\<open>round\<close> goes through strings. The text of a Number is kept by its form and the
  value its digits denote: \<^verbatim>\<open>"NaN"\<close>, \<^verbatim>\<open>"Infinity"\<close> with its sign, plain decimal
  notation, or exponent notation (\<^verbatim>\<open>"1e-7"\<close>, \<^verbatim>\<open>"1e+21"\<close>). Number-to-string writes
  plain decimal notation exactly for zero and for \<open>10\<^sup>-\<^sup>6 \<le> |x| < 10\<^sup>2\<^sup>1\<close>; both
  zeros print as \<^verbatim>\<open>"0"\<close>.
\<close>

datatype numtext = TxtNaN | TxtInfinity bool | TxtDecimal rat | TxtExponent rat

definition plainDecimal :: "rat \<Rightarrow> bool" where
  "plainDecimal q = (q = 0 \<or> (1 / 10 ^ 6 \<le> \<bar>q\<bar> \<and> \<bar>q\<bar> < 10 ^ 21))"

fun numToString :: "jsnum \<Rightarrow> numtext" where
  "numToString NaN = TxtNaN"
| "numToString PInf = TxtInfinity False"
| "numToString NInf = TxtInfinity True"
| "numToString NZero = TxtDecimal 0"
| "numToString (Fin q) = (if plainDecimal q then TxtDecimal q else TxtExponent q)"

text \<open>
  \<open>ExpSuffix t neg k\<close> is the string \<open>t\<close> followed by \<^verbatim>\<open>"e"\<close> (or \<^verbatim>\<open>"e-"\<close> when
  \<open>neg\<close>) and the decimal digits of \<open>k\<close>. Read as a Number, it is a numeric literal only
  when \<open>t\<close> is in plain decimal notation: \<^verbatim>\<open>"NaNe2"\<close>, \<^verbatim>\<open>"Infinitye2"\<close> and
  \<^verbatim>\<open>"1e-7e2"\<close> all convert to not-a-number.
\<close>

datatype exptext = ExpSuffix numtext bool nat

fun stringToNumber :: "exptext \<Rightarrow> jsnum" where
  "stringToNumber (ExpSuffix (TxtDecimal q) neg k) =
     Fin (if neg then q / 10 ^ k else q * 10 ^ k)"
| "stringToNumber (ExpSuffix _ _ _) = NaN"

text \<open>
  \<^verbatim>\<open>
  function round(number, decimalPlaces){
    return Number(Math.round(number + "e" + decimalPlaces) + "e-" + decimalPlaces)
  }
  \<close>
  The program's \<^verbatim>\<open>round\<close> is \<open>round_js\<close> here; every call passes 2 decimal places.
\<close>

definition round_js :: "jsnum \<Rightarrow> nat \<Rightarrow> jsnum" where
  "round_js number decimalPlaces =
     stringToNumber
       (ExpSuffix
          (numToString
             (mathRound (stringToNumber (ExpSuffix (numToString number) False decimalPlaces))))
          True decimalPlaces)"



subsection \<open>\<^verbatim>\<open>Number.parseFloat\<close>\<close>

text \<open>
  \<^verbatim>\<open>Number.parseFloat(string)\<close> skips leading white space and converts the longest
  prefix of the rest that is a decimal literal: an optional sign, then \<^verbatim>\<open>Infinity\<close>, or
  digits with an optional fraction and an optional exponent (an exponent counts only
  when it has a digit). When no prefix is a literal, the result is not-a-number: so for
  the empty string and for any text that does not start with a number. A string is a
  list of bytes here, and the white space skipped is the ASCII white space.
\<close>

definition isWhiteSpace :: "char \<Rightarrow> bool" where
  "isWhiteSpace c = (c \<in> set [CHR '' '', CHR 0x09, CHR 0x0A, CHR 0x0B, CHR 0x0C, CHR 0x0D])"

definition isDigit :: "char \<Rightarrow> bool" where
  "isDigit c = (48 \<le> (of_char c :: int) \<and> (of_char c :: int) \<le> 57)"

definition digitsToInt :: "string \<Rightarrow> int" where
  "digitsToInt ds = foldl (\<lambda>acc c. 10 * acc + (of_char c - 48)) 0 ds"

definition exponentDigits :: "bool \<Rightarrow> string \<Rightarrow> int" where
  "exponentDigits neg r =
     (if takeWhile isDigit r = [] then 0
      else if neg then - digitsToInt (takeWhile isDigit r)
      else digitsToInt (takeWhile isDigit r))"

definition exponentPart :: "string \<Rightarrow> int" where
  "exponentPart r =
     (case r of
        [] \<Rightarrow> 0
      | c # r1 \<Rightarrow>
          if c = CHR ''e'' \<or> c = CHR ''E'' then
            (case r1 of
               [] \<Rightarrow> 0
             | d # r2 \<Rightarrow>
                 if d = CHR ''+'' then exponentDigits False r2
                 else if d = CHR ''-'' then exponentDigits True r2
                 else exponentDigits False r1)
          else 0)"

definition parseFloat :: "string \<Rightarrow> jsnum" where
  "parseFloat inputString =
     (let trimmed = dropWhile isWhiteSpace inputString;
          neg = (case trimmed of [] \<Rightarrow> False | c # _ \<Rightarrow> c = CHR ''-'');
          unsigned =
            (case trimmed of
               [] \<Rightarrow> []
             | c # r \<Rightarrow> if c = CHR ''-'' \<or> c = CHR ''+'' then r else trimmed)
      in if take 8 unsigned = ''Infinity'' then signed_inf neg
         else
           let intDigits = takeWhile isDigit unsigned;
               afterInt = dropWhile isDigit unsigned;
               hasPoint = (case afterInt of [] \<Rightarrow> False | c # _ \<Rightarrow> c = CHR ''.'');
               fracDigits = (if hasPoint then takeWhile isDigit (tl afterInt) else []);
               afterFrac = (if hasPoint then dropWhile isDigit (tl afterInt) else afterInt)
           in if intDigits = [] \<and> fracDigits = [] then NaN
              else
                let m = of_int (digitsToInt (intDigits @ fracDigits)) / 10 ^ length fracDigits;
                    e = exponentPart afterFrac;
                    v = (if 0 \<le> e then m * 10 ^ nat e else m / 10 ^ nat (- e))
                in if v = 0 then signed_zero neg else Fin (if neg then - v else v))"

section \<open>The program state\<close>

text \<open>
  The script's variables and the parts of the page and of the browser it acts on.
  \<^item> \<open>paceSettings\<close> is the object \<^verbatim>\<open>paceSettings\<close>: its properties in insertion order.
  \<^item> \<open>previousSettings\<close> is the array of the most recently edited setting names.
  \<^item> \<open>timeoutIDs\<close> is the object that records, under each label, the handle that
    \<^verbatim>\<open>setTimeout\<close> returned.
  \<^item> \<open>rowerClasses\<close> is the class list of the rower element; the three audio flags say
    whether each audio element is playing.
  \<^item> \<open>cssIterationDuration\<close> and \<open>keyframeRatio\<close> are what \<^verbatim>\<open>updateAnimationCode\<close>
    writes into the style.
  \<^item> \<open>timers\<close> is the browser's list of pending timeouts: handle, due time in
    milliseconds, and what resumes when the timeout resolves its promise;
    \<open>nextHandle\<close> is the next fresh handle and \<open>now\<close> the clock in milliseconds.
  The button label, the text shown in the three inputs, the style sheet's text and the
  playing position of the audio elements are written by the program and never read
  back; they are left out.
\<close>

text \<open>
  An \<^verbatim>\<open>async\<close> function suspended at an \<^verbatim>\<open>await wait(...)\<close> is the rest of its body:
  one constructor for each \<^verbatim>\<open>await\<close> of the program.
\<close>

datatype cont =
    K_startAnimation
  | K_playSounds_drive
  | K_playSounds_recover
  | K_changeColors
  | K_showCatchColor
  | K_showFinishColor

record state =
  paceSettings :: "(string \<times> jsnum) list"
  previousSettings :: "string list"
  timeoutIDs :: "(string \<times> nat) list"
  animationPlaying :: bool
  rowerClasses :: "string list"
  countdownAudio :: bool
  catchAudio :: bool
  finishAudio :: bool
  cssIterationDuration :: jsnum
  keyframeRatio :: jsnum
  console :: "string list"
  timers :: "(nat \<times> int \<times> cont) list"
  nextHandle :: nat
  now :: int

datatype error = Error string

text \<open>
  Reading a property: a missing property reads \<^verbatim>\<open>undefined\<close>, which every arithmetic
  use converts to not-a-number and which, like not-a-number, is not \<^verbatim>\<open>== 0\<close>.
\<close>

definition paceSetting :: "state \<Rightarrow> string \<Rightarrow> jsnum" where
  "paceSetting s key = (case map_of (paceSettings s) key of Some v \<Rightarrow> v | None \<Rightarrow> NaN)"

text \<open>Assigning a property keeps its place when it exists and appends it otherwise.\<close>

definition setPaceSetting :: "string \<Rightarrow> jsnum \<Rightarrow> state \<Rightarrow> state" where
  "setPaceSetting key v s = s\<lparr>paceSettings := AList.update key v (paceSettings s)\<rparr>"

definition classAdd :: "string \<Rightarrow> string list \<Rightarrow> string list" where
  "classAdd c cs = (if c \<in> set cs then cs else cs @ [c])"

definition classRemove :: "string list \<Rightarrow> string list \<Rightarrow> string list" where
  "classRemove rs cs = filter (\<lambda>c. c \<notin> set rs) cs"

section \<open>Timers\<close>

text \<open>
  \<^verbatim>\<open>setTimeout\<close> takes its delay as a 32-bit integer: not-a-number and the infinities
  become 0, a finite value is truncated toward zero and wrapped into the signed 32-bit
  range, and a negative delay counts as 0.
\<close>

definition timeoutDelay :: "jsnum \<Rightarrow> int" where
  "timeoutDelay ms =
     (case ms of
        Fin q \<Rightarrow>
          (let t = (if q < 0 then - \<lfloor>- q\<rfloor> else \<lfloor>q\<rfloor>);
               m = t mod 2 ^ 32;
               w = (if 2 ^ 31 \<le> m then m - 2 ^ 32 else m)
           in if w < 0 then 0 else w)
      | _ \<Rightarrow> 0)"

text \<open>
  \<^verbatim>\<open>
  function wait(ms, id){
    return new Promise((resolve, reject) => {
      timeoutIDs[id] = setTimeout(resolve, ms);
    });
  }
  \<close>
  The promise is awaited where it is made, so the model passes what the \<^verbatim>\<open>await\<close>
  resumes. The timeout gets a fresh handle, and the handle is stored under the label.
\<close>

definition wait :: "jsnum \<Rightarrow> string \<Rightarrow> cont \<Rightarrow> state \<Rightarrow> state" where
  "wait ms id' k s =
     s\<lparr>timers := timers s @ [(nextHandle s, now s + timeoutDelay ms, k)],
       timeoutIDs := AList.update id' (nextHandle s) (timeoutIDs s),
       nextHandle := Suc (nextHandle s)\<rparr>"

definition clearTimeout :: "nat \<Rightarrow> state \<Rightarrow> state" where
  "clearTimeout h s = s\<lparr>timers := filter (\<lambda>t. fst t \<noteq> h) (timers s)\<rparr>"

section \<open>Handle animations\<close>

definition colorChangeDuration :: jsnum where
  "colorChangeDuration = Fin 250"

definition countdownDuration :: jsnum where
  "countdownDuration = Fin 3300"

definition updateAnimationCode :: "state \<Rightarrow> state" where
  "updateAnimationCode s =
     s\<lparr>cssIterationDuration := jsdiv (Fin 60) (paceSetting s ''cadence''),
       keyframeRatio :=
         jsdiv (jsmul (Fin 100) (paceSetting s ''driveTime''))
           (jsadd (paceSetting s ''driveTime'') (paceSetting s ''recoverTime''))\<rparr>"

definition playCountdownSound :: "state \<Rightarrow> state" where
  "playCountdownSound s = s\<lparr>countdownAudio := True\<rparr>"

definition playCatchSound :: "state \<Rightarrow> state" where
  "playCatchSound s = s\<lparr>finishAudio := False, catchAudio := True\<rparr>"

definition playRecoverSound :: "state \<Rightarrow> state" where
  "playRecoverSound s = s\<lparr>catchAudio := False, finishAudio := True\<rparr>"

definition pauseAllAudio :: "state \<Rightarrow> state" where
  "pauseAllAudio s = s\<lparr>countdownAudio := False, catchAudio := False, finishAudio := False\<rparr>"

text \<open>Each \<^verbatim>\<open>async\<close> function runs up to its first \<^verbatim>\<open>await\<close>.\<close>

definition showCatchColor :: "state \<Rightarrow> state" where
  "showCatchColor s =
     wait colorChangeDuration ''catchColor'' K_showCatchColor
       (s\<lparr>rowerClasses := classAdd ''catch'' (rowerClasses s)\<rparr>)"

definition showFinishColor :: "state \<Rightarrow> state" where
  "showFinishColor s =
     wait colorChangeDuration ''finishColor'' K_showFinishColor
       (s\<lparr>rowerClasses := classAdd ''finish'' (rowerClasses s)\<rparr>)"

definition playSounds :: "state \<Rightarrow> state" where
  "playSounds s =
     (let s1 = playCatchSound s
      in wait (jsmul (paceSetting s1 ''driveTime'') (Fin 1000)) ''sounds'' K_playSounds_drive s1)"

definition changeColors :: "state \<Rightarrow> state" where
  "changeColors s =
     (let s1 = showCatchColor s
      in wait (jsmul (paceSetting s1 ''driveTime'') (Fin 1000)) ''colorChange'' K_changeColors s1)"

definition triggerAnimationIteration :: "state \<Rightarrow> state" where
  "triggerAnimationIteration s = changeColors (playSounds s)"

definition startAnimation :: "state \<Rightarrow> state" where
  "startAnimation s =
     wait countdownDuration ''countdown'' K_startAnimation
       (playCountdownSound (s\<lparr>animationPlaying := True\<rparr>))"

text \<open>What runs when a timeout resolves the promise an \<^verbatim>\<open>await\<close> is waiting for.\<close>

fun resume :: "cont \<Rightarrow> state \<Rightarrow> state" where
  "resume K_startAnimation s =
     triggerAnimationIteration (s\<lparr>rowerClasses := classAdd ''animating'' (rowerClasses s)\<rparr>)"
| "resume K_playSounds_drive s =
     (let s1 = playRecoverSound s
      in wait (jsmul (paceSetting s1 ''recoverTime'') (Fin 1000)) ''sounds''
           K_playSounds_recover s1)"
| "resume K_playSounds_recover s = s"
| "resume K_changeColors s = showFinishColor s"
| "resume K_showCatchColor s = s\<lparr>rowerClasses := classRemove [''catch''] (rowerClasses s)\<rparr>"
| "resume K_showFinishColor s = s\<lparr>rowerClasses := classRemove [''finish''] (rowerClasses s)\<rparr>"

text \<open>
  \<^verbatim>\<open>
  function stopAnimation(){
    animationPlaying = false;
    Object.values(timeoutIDs).forEach(clearTimeout);
    elem_rower.classList.remove("recover", "drive", "finish", "catch", "animating");
    pauseAllAudio();
  }
  \<close>
\<close>

definition stopAnimation :: "state \<Rightarrow> state" where
  "stopAnimation s =
     (let s1 = s\<lparr>animationPlaying := False\<rparr>;
          s2 = fold clearTimeout (map snd (timeoutIDs s1)) s1;
          s3 = s2\<lparr>rowerClasses :=
                    classRemove [''recover'', ''drive'', ''finish'', ''catch'', ''animating'']
                      (rowerClasses s2)\<rparr>
      in pauseAllAudio s3)"

text \<open>
  \<^verbatim>\<open>
  function toggleStartStop(){
    if (animationPlaying){ stopAnimation(); return; }
    if (paceSettings.cadence == 0 || paceSettings.driveTime == 0
        || paceSettings.recoverTime == 0){ return; }
    startAnimation();
  }
  \<close>
\<close>

definition toggleStartStop :: "state \<Rightarrow> state" where
  "toggleStartStop s =
     (if animationPlaying s then stopAnimation s
      else if jseq (paceSetting s ''cadence'') (Fin 0)
             \<or> jseq (paceSetting s ''driveTime'') (Fin 0)
             \<or> jseq (paceSetting s ''recoverTime'') (Fin 0) then s
      else startAnimation s)"

section \<open>Handle inputs\<close>

definition resetInputs :: "state \<Rightarrow> state" where
  "resetInputs s =
     (let s1 = stopAnimation s;
          s2 = setPaceSetting ''cadence'' (Fin 0) s1;
          s3 = setPaceSetting ''driveTime'' (Fin 0) s2;
          s4 = setPaceSetting ''recoverTime'' (Fin 0) s3
      in s4\<lparr>previousSettings := ['''', '''']\<rparr>)"

text \<open>
  \<^verbatim>\<open>
  function addToPreviousSettings(setting){
    if (previousSettings[1] == setting){ return; }
    previousSettings.push(setting);
    previousSettings.shift();
  }
  \<close>
  An index past the end reads \<^verbatim>\<open>undefined\<close>, which equals no string.
\<close>

definition addToPreviousSettings :: "string \<Rightarrow> state \<Rightarrow> state" where
  "addToPreviousSettings setting s =
     (if 1 < length (previousSettings s) \<and> previousSettings s ! 1 = setting then s
      else s\<lparr>previousSettings := tl (previousSettings s @ [setting])\<rparr>)"

text \<open>
  \<^verbatim>\<open>findRemainingInput\<close>: the first key of \<^verbatim>\<open>paceSettings\<close> that is not in
  \<^verbatim>\<open>previousSettings\<close>; \<^verbatim>\<open>undefined\<close> (\<open>None\<close>) when there is none.
\<close>

definition findRemainingInput :: "state \<Rightarrow> string option" where
  "findRemainingInput s =
     (case filter (\<lambda>key. key \<notin> set (previousSettings s)) (map fst (paceSettings s)) of
        [] \<Rightarrow> None
      | key # _ \<Rightarrow> Some key)"

text \<open>
  The three recalculations. Each one that computes a negative value calls
  \<^verbatim>\<open>resetInputs()\<close> and then throws: the result is \<open>Inl\<close> of the error and of the
  state the throw leaves behind.
  \<^verbatim>\<open>
  function recalculateCadence(){
    const iterationDuration = paceSettings.driveTime + paceSettings.recoverTime;
    const cadence = round(60 / iterationDuration, 2);
    if (cadence < 0){
      resetInputs();
      throw new Error("Calculated invalid cadence");
    }
    paceSettings.cadence = cadence;
  }
  function recalculateDriveTime(){
    const iterationDuration = 60 / paceSettings.cadence;
    const driveTime = round(iterationDuration - paceSettings.recoverTime, 2);
    if (driveTime < 0){
      resetInputs();
      throw new Error("Calculated invalid drive time");
    }
    paceSettings.driveTime = driveTime;
  }
  \<close>
  \<^verbatim>\<open>recalculateRecoverTime\<close> is \<^verbatim>\<open>recalculateDriveTime\<close> with the two times exchanged.
\<close>

definition recalculateCadence :: "state \<Rightarrow> (error \<times> state) + state" where
  "recalculateCadence s =
     (let iterationDuration = jsadd (paceSetting s ''driveTime'') (paceSetting s ''recoverTime'');
          cadence = round_js (jsdiv (Fin 60) iterationDuration) 2
      in if jslt cadence (Fin 0)
         then Inl (Error ''Calculated invalid cadence'', resetInputs s)
         else Inr (setPaceSetting ''cadence'' cadence s))"

definition recalculateDriveTime :: "state \<Rightarrow> (error \<times> state) + state" where
  "recalculateDriveTime s =
     (let iterationDuration = jsdiv (Fin 60) (paceSetting s ''cadence'');
          driveTime = round_js (jssub iterationDuration (paceSetting s ''recoverTime'')) 2
      in if jslt driveTime (Fin 0)
         then Inl (Error ''Calculated invalid drive time'', resetInputs s)
         else Inr (setPaceSetting ''driveTime'' driveTime s))"

definition recalculateRecoverTime :: "state \<Rightarrow> (error \<times> state) + state" where
  "recalculateRecoverTime s =
     (let iterationDuration = jsdiv (Fin 60) (paceSetting s ''cadence'');
          recoverTime = round_js (jssub iterationDuration (paceSetting s ''driveTime'')) 2
      in if jslt recoverTime (Fin 0)
         then Inl (Error ''Calculated invalid recover time'', resetInputs s)
         else Inr (setPaceSetting ''recoverTime'' recoverTime s))"

definition paceSettingUpdateFunctions :: "(string \<times> (state \<Rightarrow> (error \<times> state) + state)) list" where
  "paceSettingUpdateFunctions =
     [(''cadence'', recalculateCadence),
      (''driveTime'', recalculateDriveTime),
      (''recoverTime'', recalculateRecoverTime)]"

text \<open>
  \<^verbatim>\<open>
  function updatePaceSetting(setting){
    if (!paceSettingUpdateFunctions.hasOwnProperty(setting)){
      console.error(`${setting} is not a valid setting.`);
      return;
    }
    paceSettingUpdateFunctions[setting]();
  }
  \<close>
  A setting name as a property key and in a template string: \<^verbatim>\<open>undefined\<close> reads
  \<^verbatim>\<open>"undefined"\<close>.
\<close>

definition propertyKey :: "string option \<Rightarrow> string" where
  "propertyKey setting = (case setting of None \<Rightarrow> ''undefined'' | Some k \<Rightarrow> k)"

definition updatePaceSetting :: "string option \<Rightarrow> state \<Rightarrow> (error \<times> state) + state" where
  "updatePaceSetting setting s =
     (case map_of paceSettingUpdateFunctions (propertyKey setting) of
        None \<Rightarrow>
          Inr (s\<lparr>console := console s @ [propertyKey setting @ '' is not a valid setting.'']\<rparr>)
      | Some recalculate \<Rightarrow> recalculate s)"

text \<open>
  \<^verbatim>\<open>
  function inputUpdated(){
    stopAnimation();
    thisSetting = this.id;
    addToPreviousSettings(thisSetting);
    paceSettings[thisSetting] = Number.parseFloat(this.value);
    if (!previousSettings[0]){ return; }
    settingToUpdate = findRemainingInput(thisSetting);
    updatePaceSetting(settingToUpdate);
    updateAnimationCode();
  }
  \<close>
  \<^verbatim>\<open>inputUpdated\<close> runs with \<^verbatim>\<open>this\<close> the edited input: \<open>thisId\<close> is its \<^verbatim>\<open>id\<close> and
  \<open>thisValue\<close> its \<^verbatim>\<open>value\<close>. An empty string is the only falsy string, and an index
  past the end reads \<^verbatim>\<open>undefined\<close>, which is falsy too.
\<close>

definition inputUpdated :: "string \<Rightarrow> string \<Rightarrow> state \<Rightarrow> (error \<times> state) + state" where
  "inputUpdated thisId thisValue s =
     (let s1 = stopAnimation s;
          s2 = addToPreviousSettings thisId s1;
          s3 = setPaceSetting thisId (parseFloat thisValue) s2
      in if (case previousSettings s3 of [] \<Rightarrow> True | first # _ \<Rightarrow> first = '''') then Inr s3
         else
           (case updatePaceSetting (findRemainingInput s3) s3 of
              Inl thrown \<Rightarrow> Inl thrown
            | Inr s4 \<Rightarrow> Inr (updateAnimationCode s4)))"

section \<open>The event loop\<close>

text \<open>
  The script runs as listeners of page events and as resumptions after a timeout. One
  event is handled at a time. \<open>Elapse n\<close> lets \<open>n\<close> milliseconds pass (the clock never
  runs backwards); \<open>TimerFires h\<close> is
  the browser running the pending timeout \<open>h\<close>, which it does only once the timeout is
  due. An error thrown by a listener ends that listener and leaves the state as it is.
\<close>

datatype event =
    ClickStartStop
  | ClickReset
  | InputEdited string string
  | AnimationIteration
  | TimerFires nat
  | Elapse int

definition timerFires :: "nat \<Rightarrow> state \<Rightarrow> state" where
  "timerFires h s =
     (case filter (\<lambda>t. fst t = h) (timers s) of
        [] \<Rightarrow> s
      | t # _ \<Rightarrow>
          if fst (snd t) \<le> now s
          then resume (snd (snd t)) (s\<lparr>timers := filter (\<lambda>t. fst t \<noteq> h) (timers s)\<rparr>)
          else s)"

fun step :: "event \<Rightarrow> state \<Rightarrow> state" where
  "step ClickStartStop s = toggleStartStop s"
| "step ClickReset s = resetInputs s"
| "step (InputEdited thisId thisValue) s =
     (case inputUpdated thisId thisValue s of Inl thrown \<Rightarrow> snd thrown | Inr s' \<Rightarrow> s')"
| "step AnimationIteration s = triggerAnimationIteration s"
| "step (TimerFires h) s = timerFires h s"
| "step (Elapse n) s = s\<lparr>now := now s + max 0 n\<rparr>"

definition run :: "event list \<Rightarrow> state \<Rightarrow> state" where
  "run es s = fold step es s"

text \<open>
  The state when the script has loaded: the variables as declared, then the call of
  \<^verbatim>\<open>resetInputs()\<close> on the script's last line.
\<close>

definition declared :: state where
  "declared =
     \<lparr>paceSettings = [], previousSettings = ['''', ''''], timeoutIDs = [],
      animationPlaying = False, rowerClasses = [], countdownAudio = False,
      catchAudio = False, finishAudio = False, cssIterationDuration = NaN,
      keyframeRatio = NaN, console = [], timers = [], nextHandle = 0, now = 0\<rparr>"

definition startup :: state where
  "startup = resetInputs declared"

text \<open>
  A full reset as the specification words it: the three pace fields read 0 and the
  recency buffer holds no setting name.
\<close>

definition fullyReset :: "state \<Rightarrow> bool" where
  "fullyReset s =
     (paceSetting s ''cadence'' = Fin 0 \<and> paceSetting s ''driveTime'' = Fin 0
      \<and> paceSetting s ''recoverTime'' = Fin 0 \<and> previousSettings s = ['''', ''''])"

text \<open>
  Handles are issued in increasing order. In a well-formed state every label of
  \<^verbatim>\<open>timeoutIDs\<close> has one handle, no handle is stored under two labels, and every stored
  or pending handle is older than the next one to be issued.
\<close>

definition handles_ok :: "state \<Rightarrow> bool" where
  "handles_ok s =
     (distinct (map fst (timeoutIDs s)) \<and> distinct (map snd (timeoutIDs s))
      \<and> (\<forall>p \<in> set (timeoutIDs s). snd p < nextHandle s)
      \<and> (\<forall>t \<in> set (timers s). fst t < nextHandle s)
      \<and> distinct (map fst (timers s)))"

text \<open>
  A session of the page: drive time 60.1 and recover time 0.1 are entered, so the cadence
  derives to 1 and the animation loop lasts 60 s. Start is clicked, the countdown ends
  after 3300 ms and the first stroke begins; its catch colour is taken back after
  250 ms. After 60 s the animation begins its second stroke, 100 ms before the first
  stroke's drive is over. 50 ms later stop is clicked.
\<close>

definition stroke_overlap_session :: "event list" where
  "stroke_overlap_session =
     [InputEdited ''driveTime'' ''60.1'', InputEdited ''recoverTime'' ''0.1'',
      ClickStartStop, Elapse 3300, TimerFires 0,
      Elapse 250, TimerFires 2,
      Elapse 59750, AnimationIteration,
      Elapse 50, ClickStartStop]"

section \<open>Properties of the rounding helper\<close>

lemma floor_half: "\<lfloor>1 / 2 :: rat\<rfloor> = 0"
  by (simp add: floor_eq_iff)



lemma plainDecimal_0 [simp]: "plainDecimal 0"
  by (simp add: plainDecimal_def)



lemma round_js_nonfinite:
  "round_js NaN 2 = NaN" "round_js PInf 2 = NaN" "round_js NInf 2 = NaN"
  "round_js NZero 2 = Fin 0"
  by (simp_all add: round_js_def floor_half plainDecimal_def)



section \<open>Properties of the state operations\<close>

lemma fold_clearTimeout:
  "fold clearTimeout hs s = s\<lparr>timers := filter (\<lambda>t. fst t \<notin> set hs) (timers s)\<rparr>"
proof (induction hs arbitrary: s)
  case Nil
  then show ?case by simp
next
  case (Cons h hs)
  have "filter (\<lambda>t. fst t \<notin> set hs) (filter (\<lambda>t. fst t \<noteq> h) (timers s))
      = filter (\<lambda>t. fst t \<notin> set (h # hs)) (timers s)"
    by (auto intro: filter_cong)
  with Cons show ?case by (simp add: clearTimeout_def)
qed

text \<open>\<^verbatim>\<open>stopAnimation\<close> cancels the pending timeouts whose handle is stored in
  \<^verbatim>\<open>timeoutIDs\<close>, and no other.\<close>

lemma stopAnimation_eq:
  "stopAnimation s =
     s\<lparr>animationPlaying := False,
       timers := filter (\<lambda>t. fst t \<notin> snd ` set (timeoutIDs s)) (timers s),
       rowerClasses :=
         classRemove [''recover'', ''drive'', ''finish'', ''catch'', ''animating''] (rowerClasses s),
       countdownAudio := False, catchAudio := False, finishAudio := False\<rparr>"
  by (simp add: stopAnimation_def Let_def fold_clearTimeout pauseAllAudio_def)

lemma stopAnimation_fields [simp]:
  "paceSettings (stopAnimation s) = paceSettings s"
  "previousSettings (stopAnimation s) = previousSettings s"
  "timeoutIDs (stopAnimation s) = timeoutIDs s"
  "nextHandle (stopAnimation s) = nextHandle s"
  "console (stopAnimation s) = console s"
  by (simp_all add: stopAnimation_eq)

lemma paceSetting_stopAnimation [simp]:
  "paceSetting (stopAnimation s) key = paceSetting s key"
  by (simp add: paceSetting_def)

lemma paceSetting_set [simp]:
  "paceSetting (setPaceSetting key v s) key' = (if key' = key then v else paceSetting s key')"
  by (simp add: paceSetting_def setPaceSetting_def update_conv')

lemma setPaceSetting_fields [simp]:
  "previousSettings (setPaceSetting key v s) = previousSettings s"
  "timeoutIDs (setPaceSetting key v s) = timeoutIDs s"
  "nextHandle (setPaceSetting key v s) = nextHandle s"
  "timers (setPaceSetting key v s) = timers s"
  "paceSettings (setPaceSetting key v s) = AList.update key v (paceSettings s)"
  by (simp_all add: setPaceSetting_def)

lemma resetInputs_fields [simp]:
  "previousSettings (resetInputs s) = ['''', '''']"
  "paceSetting (resetInputs s) ''cadence'' = Fin 0"
  "paceSetting (resetInputs s) ''driveTime'' = Fin 0"
  "paceSetting (resetInputs s) ''recoverTime'' = Fin 0"
  "timeoutIDs (resetInputs s) = timeoutIDs s"
  "nextHandle (resetInputs s) = nextHandle s"
  by (simp_all add: resetInputs_def Let_def paceSetting_def setPaceSetting_def update_conv')

lemma fullyReset_resetInputs: "fullyReset (resetInputs s)"
  by (simp add: fullyReset_def)

text \<open>A recalculation that throws has called \<^verbatim>\<open>resetInputs()\<close> first, and nothing
  after it.\<close>

lemma recalculate_throws:
  "recalculateCadence s = Inl (e, s') \<Longrightarrow> s' = resetInputs s"
  "recalculateDriveTime s = Inl (e, s') \<Longrightarrow> s' = resetInputs s"
  "recalculateRecoverTime s = Inl (e, s') \<Longrightarrow> s' = resetInputs s"
  by (auto simp: recalculateCadence_def recalculateDriveTime_def recalculateRecoverTime_def
      Let_def split: if_splits)

lemma updatePaceSetting_throws:
  "updatePaceSetting setting s = Inl (e, s') \<Longrightarrow> s' = resetInputs s"
  by (auto simp: updatePaceSetting_def paceSettingUpdateFunctions_def
      dest: recalculate_throws split: option.splits if_splits)

lemma inputUpdated_throws:
  "inputUpdated thisId thisValue s = Inl (e, s') \<Longrightarrow> \<exists>s0. s' = resetInputs s0"
  by (auto simp: inputUpdated_def Let_def dest: updatePaceSetting_throws
      split: if_splits sum.splits list.splits)

lemma updatePaceSetting_invalid:
  "setting \<notin> {Some ''cadence'', Some ''driveTime'', Some ''recoverTime''} \<Longrightarrow>
   updatePaceSetting setting s =
     Inr (s\<lparr>console := console s @ [propertyKey setting @ '' is not a valid setting.'']\<rparr>)"
  by (cases setting)
    (auto simp: updatePaceSetting_def paceSettingUpdateFunctions_def propertyKey_def)

lemma drive_time_example:
  "inputUpdated ''recoverTime'' ''2'' (step (InputEdited ''cadence'' ''60'') startup) =
     Inl (Error ''Calculated invalid drive time'', startup)"
  by code_simp

section \<open>The claims\<close>

text \<open>
  C4. Whenever a derivation fails (the derived value would be negative), the model is
  fully reset before the error propagates: in the state the throw leaves behind, all
  three pace fields read 0 and the recency buffer is cleared. This holds for the
  dispatch \<^verbatim>\<open>updatePaceSetting\<close> over the three recalculations and for the listener
  \<^verbatim>\<open>inputUpdated\<close>. In particular, with cadence 60 entered and then recover time 2,
  deriving the drive time throws and leaves the start-up state, where all three fields
  read 0.
\<close>

theorem invalid_pace_resets_model:
  "(\<forall>setting s e s'. updatePaceSetting setting s = Inl (e, s') \<longrightarrow> fullyReset s')
   \<and> (\<forall>thisId thisValue s e s'.
         inputUpdated thisId thisValue s = Inl (e, s') \<longrightarrow> fullyReset s')
   \<and> inputUpdated ''recoverTime'' ''2'' (step (InputEdited ''cadence'' ''60'') startup) =
       Inl (Error ''Calculated invalid drive time'', startup)"
proof (intro conjI allI impI)
  fix setting s e s'
  assume "updatePaceSetting setting s = Inl (e, s')"
  then show "fullyReset s'"
    by (auto dest: updatePaceSetting_throws simp: fullyReset_resetInputs)
next
  fix thisId thisValue s e s'
  assume "inputUpdated thisId thisValue s = Inl (e, s')"
  then show "fullyReset s'"
    by (auto dest: inputUpdated_throws simp: fullyReset_resetInputs)
next
  show "inputUpdated ''recoverTime'' ''2'' (step (InputEdited ''cadence'' ''60'') startup) =
       Inl (Error ''Calculated invalid drive time'', startup)"
    by (rule drive_time_example)
qed

theorem invalid_pace_resets_model_witness:
  "updatePaceSetting (Some ''driveTime'')
       (setPaceSetting ''recoverTime'' (Fin 2) (setPaceSetting ''cadence'' (Fin 60) startup)) =
     Inl (Error ''Calculated invalid drive time'', startup)
   \<and> inputUpdated ''recoverTime'' ''2'' (step (InputEdited ''cadence'' ''60'') startup) =
     Inl (Error ''Calculated invalid drive time'', startup)
   \<and> fullyReset startup"
proof -
  have a: "updatePaceSetting (Some ''driveTime'')
       (setPaceSetting ''recoverTime'' (Fin 2) (setPaceSetting ''cadence'' (Fin 60) startup)) =
     Inl (Error ''Calculated invalid drive time'', startup)"
    by code_simp
  from invalid_pace_resets_model a show ?thesis by blast
qed

text \<open>
  C10. For every setting name that is not one of cadence, driveTime, recoverTime (the
  undefined name, \<open>None\<close>, included), \<^verbatim>\<open>updatePaceSetting\<close> returns without throwing
  and leaves the pace fields and the recency buffer as they were; it only logs a line
  on the console.
\<close>

theorem updatePaceSetting_unknown_setting:
  assumes "setting \<notin> {Some ''cadence'', Some ''driveTime'', Some ''recoverTime''}"
  shows "\<exists>s'. updatePaceSetting setting s = Inr s'
           \<and> paceSettings s' = paceSettings s
           \<and> previousSettings s' = previousSettings s"
  using updatePaceSetting_invalid[OF assms, of s] by simp

theorem updatePaceSetting_unknown_setting_witness:
  "None \<notin> {Some ''cadence'', Some ''driveTime'', Some ''recoverTime''}
   \<and> (\<exists>s'. updatePaceSetting None startup = Inr s'
           \<and> paceSettings s' = paceSettings startup
           \<and> previousSettings s' = previousSettings startup)"
proof -
  have h: "None \<notin> {Some ''cadence'', Some ''driveTime'', Some ''recoverTime''}" by simp
  from updatePaceSetting_unknown_setting[OF h, of startup] h show ?thesis by simp
qed

section \<open>More on rounding and on the recalculations\<close>











section \<open>The claims on rounding and on the cadence\<close>










section \<open>Invariants of the event loop\<close>

lemma wait_pace [simp]:
  "paceSettings (wait ms l k s) = paceSettings s"
  "previousSettings (wait ms l k s) = previousSettings s"
  by (simp_all add: wait_def)

lemma paceSetting_wait [simp]: "paceSetting (wait ms l k s) key = paceSetting s key"
  by (simp add: paceSetting_def)

lemma triggerAnimationIteration_pace [simp]:
  "paceSettings (triggerAnimationIteration s) = paceSettings s"
  "previousSettings (triggerAnimationIteration s) = previousSettings s"
  by (simp_all add: triggerAnimationIteration_def changeColors_def playSounds_def
      showCatchColor_def playCatchSound_def Let_def)

lemma startAnimation_pace [simp]:
  "paceSettings (startAnimation s) = paceSettings s"
  "previousSettings (startAnimation s) = previousSettings s"
  by (simp_all add: startAnimation_def playCountdownSound_def)

lemma resume_pace [simp]:
  "paceSettings (resume k s) = paceSettings s"
  "previousSettings (resume k s) = previousSettings s"
  by (cases k; simp add: showFinishColor_def playRecoverSound_def Let_def)+

lemma timerFires_pace [simp]:
  "paceSettings (timerFires h s) = paceSettings s"
  "previousSettings (timerFires h s) = previousSettings s"
  by (simp_all add: timerFires_def split: list.splits)

lemma toggleStartStop_pace [simp]:
  "paceSettings (toggleStartStop s) = paceSettings s"
  "previousSettings (toggleStartStop s) = previousSettings s"
  by (simp_all add: toggleStartStop_def)

lemma updateAnimationCode_pace [simp]:
  "paceSettings (updateAnimationCode s) = paceSettings s"
  "previousSettings (updateAnimationCode s) = previousSettings s"
  by (simp_all add: updateAnimationCode_def)

text \<open>The recency buffer under \<^verbatim>\<open>addToPreviousSettings\<close>.\<close>

lemma addToPreviousSettings_same:
  "previousSettings s = [a, b] \<Longrightarrow> addToPreviousSettings b s = s"
  by (simp add: addToPreviousSettings_def)

lemma addToPreviousSettings_other:
  "previousSettings s = [a, b] \<Longrightarrow> setting \<noteq> b \<Longrightarrow>
   previousSettings (addToPreviousSettings setting s) = [b, setting]"
  by (simp add: addToPreviousSettings_def)

lemma addToPreviousSettings_length:
  "length (previousSettings s) = 2 \<Longrightarrow>
   length (previousSettings (addToPreviousSettings setting s)) = 2"
  by (simp add: addToPreviousSettings_def)

lemma addToPreviousSettings_fields [simp]:
  "paceSettings (addToPreviousSettings setting s) = paceSettings s"
  by (simp add: addToPreviousSettings_def)

lemma recalculate_length:
  "length (previousSettings s) = 2 \<Longrightarrow> recalculateCadence s = Inr s' \<Longrightarrow>
   length (previousSettings s') = 2"
  "length (previousSettings s) = 2 \<Longrightarrow> recalculateDriveTime s = Inr s' \<Longrightarrow>
   length (previousSettings s') = 2"
  "length (previousSettings s) = 2 \<Longrightarrow> recalculateRecoverTime s = Inr s' \<Longrightarrow>
   length (previousSettings s') = 2"
  by (auto simp: recalculateCadence_def recalculateDriveTime_def recalculateRecoverTime_def
      Let_def split: if_splits)

lemma updatePaceSetting_length:
  "length (previousSettings s) = 2 \<Longrightarrow> updatePaceSetting setting s = Inr s' \<Longrightarrow>
   length (previousSettings s') = 2"
  by (auto simp: updatePaceSetting_def paceSettingUpdateFunctions_def
      dest: recalculate_length split: option.splits if_splits)

lemma inputUpdated_length:
  assumes "length (previousSettings s) = 2"
  shows "length (previousSettings
           (case inputUpdated thisId thisValue s of Inl thrown \<Rightarrow> snd thrown | Inr s' \<Rightarrow> s')) = 2"
proof (cases "inputUpdated thisId thisValue s")
  case (Inl thrown)
  obtain e s' where t: "thrown = (e, s')" by (cases thrown)
  with Inl have "inputUpdated thisId thisValue s = Inl (e, s')" by simp
  from inputUpdated_throws[OF this] obtain s0 where "s' = resetInputs s0" by blast
  with Inl t show ?thesis by simp
next
  case (Inr s')
  let ?s3 = "setPaceSetting thisId (parseFloat thisValue)
               (addToPreviousSettings thisId (stopAnimation s))"
  have l3: "length (previousSettings ?s3) = 2"
    using assms by (simp add: addToPreviousSettings_length)
  from Inr consider (bail) "s' = ?s3"
    | (derived) s4 where "updatePaceSetting (findRemainingInput ?s3) ?s3 = Inr s4"
        and "s' = updateAnimationCode s4"
    by (auto simp: inputUpdated_def Let_def split: if_splits sum.splits)
  then have "length (previousSettings s') = 2"
  proof cases
    case bail
    with l3 show ?thesis by simp
  next
    case derived
    from updatePaceSetting_length[OF l3 derived(1)] derived(2) show ?thesis by simp
  qed
  with Inr show ?thesis by simp
qed

lemma step_length:
  "length (previousSettings s) = 2 \<Longrightarrow> length (previousSettings (step ev s)) = 2"
  by (cases ev) (simp_all add: inputUpdated_length)

lemma run_length:
  "length (previousSettings s) = 2 \<Longrightarrow> length (previousSettings (run es s)) = 2"
  unfolding run_def by (induction es arbitrary: s) (simp_all add: step_length)

lemma startup_pace:
  "paceSettings startup = [(''cadence'', Fin 0), (''driveTime'', Fin 0), (''recoverTime'', Fin 0)]"
  "previousSettings startup = ['''', '''']"
  by (simp_all add: startup_def resetInputs_def Let_def declared_def)

text \<open>An edit while the buffer holds no other setting name derives nothing.\<close>

lemma inputUpdated_first_field:
  assumes "previousSettings s = ['''', x]" and "x = '''' \<or> x = f"
  shows "\<exists>s'. inputUpdated f v s = Inr s'
           \<and> paceSettings s' = AList.update f (parseFloat v) (paceSettings s)
           \<and> previousSettings s' = ['''', f]"
  using assms by (auto simp: inputUpdated_def Let_def addToPreviousSettings_def)

lemma run_snoc: "run (es @ [ev]) s = step ev (run es s)"
  by (simp add: run_def)

lemma single_field_run:
  "previousSettings (run (map (InputEdited f) raws) startup) =
      ['''', if raws = [] then '''' else f]
   \<and> paceSettings (run (map (InputEdited f) raws) startup) =
      (if raws = [] then paceSettings startup
       else AList.update f (parseFloat (last raws)) (paceSettings startup))"
proof (induction raws rule: rev_induct)
  case Nil
  then show ?case by (simp add: run_def startup_pace)
next
  case (snoc v raws)
  let ?s = "run (map (InputEdited f) raws) startup"
  from snoc have p: "previousSettings ?s = ['''', if raws = [] then '''' else f]" by simp
  have q: "(if raws = [] then '''' else f) = '''' \<or> (if raws = [] then '''' else f) = f"
    by simp
  from inputUpdated_first_field[OF p q, of v] obtain s' where
    s': "inputUpdated f v ?s = Inr s'"
      "paceSettings s' = AList.update f (parseFloat v) (paceSettings ?s)"
      "previousSettings s' = ['''', f]"
    by blast
  have "run (map (InputEdited f) (raws @ [v])) startup = s'"
    by (simp add: run_snoc s'(1))
  with s' snoc show ?case by auto
qed

text \<open>Every operation keeps the handles well-formed.\<close>

lemma update_entries:
  "p \<in> set (AList.update k v al) \<Longrightarrow> p = (k, v) \<or> p \<in> set al"
  by (induction al) (auto split: if_splits)

lemma update_distinct_values:
  "distinct (map snd al) \<Longrightarrow> v \<notin> snd ` set al \<Longrightarrow> distinct (map snd (AList.update k v al))"
proof (induction al)
  case Nil
  then show ?case by simp
next
  case (Cons p al)
  show ?case
  proof (cases "fst p = k")
    case True
    with Cons.prems show ?thesis by (auto simp: image_iff)
  next
    case False
    have "snd p \<notin> snd ` set (AList.update k v al)"
    proof
      assume "snd p \<in> snd ` set (AList.update k v al)"
      then obtain p' where p': "p' \<in> set (AList.update k v al)" "snd p = snd p'" by auto
      from update_entries[OF p'(1)] p'(2) Cons.prems show False
        by (auto simp: image_iff)
    qed
    with False Cons show ?thesis by (auto simp: image_iff)
  qed
qed

lemma handles_ok_wait: "handles_ok s \<Longrightarrow> handles_ok (wait ms l k s)"
  unfolding handles_ok_def wait_def
  by (auto simp: distinct_update less_Suc_eq dest!: update_entries
      intro!: update_distinct_values)

lemma handles_ok_cong:
  "timeoutIDs s' = timeoutIDs s \<Longrightarrow> nextHandle s' = nextHandle s \<Longrightarrow>
   timers s' = timers s \<Longrightarrow> handles_ok s' = handles_ok s"
  by (simp add: handles_ok_def)

lemma handles_ok_filter:
  "timeoutIDs s' = timeoutIDs s \<Longrightarrow> nextHandle s' = nextHandle s \<Longrightarrow>
   timers s' = filter P (timers s) \<Longrightarrow> handles_ok s \<Longrightarrow> handles_ok s'"
  by (auto simp: handles_ok_def distinct_map_filter)

lemma handles_ok_stopAnimation: "handles_ok s \<Longrightarrow> handles_ok (stopAnimation s)"
  by (rule handles_ok_filter[where P = "\<lambda>t. fst t \<notin> snd ` set (timeoutIDs s)"])
    (simp_all add: stopAnimation_eq)

lemma handles_ok_triggerAnimationIteration:
  "handles_ok s \<Longrightarrow> handles_ok (triggerAnimationIteration s)"
proof -
  assume a: "handles_ok s"
  have 1: "handles_ok (playCatchSound s)"
    using a by (simp add: playCatchSound_def handles_ok_def)
  have 2: "handles_ok (playSounds s)"
    unfolding playSounds_def Let_def by (rule handles_ok_wait[OF 1])
  have "handles_ok ((playSounds s)\<lparr>rowerClasses := classAdd ''catch'' (rowerClasses (playSounds s))\<rparr>)"
    using 2 by (simp add: handles_ok_def)
  then have 3: "handles_ok (showCatchColor (playSounds s))"
    unfolding showCatchColor_def by (rule handles_ok_wait)
  show ?thesis
    unfolding triggerAnimationIteration_def changeColors_def Let_def
    by (rule handles_ok_wait[OF 3])
qed

lemma handles_ok_startAnimation: "handles_ok s \<Longrightarrow> handles_ok (startAnimation s)"
  unfolding startAnimation_def
  by (rule handles_ok_wait) (simp add: handles_ok_def playCountdownSound_def)

lemma handles_ok_toggleStartStop: "handles_ok s \<Longrightarrow> handles_ok (toggleStartStop s)"
  by (simp add: toggleStartStop_def handles_ok_stopAnimation handles_ok_startAnimation)

lemma handles_ok_resume: "handles_ok s \<Longrightarrow> handles_ok (resume k s)"
proof (cases k)
  case K_startAnimation
  assume "handles_ok s"
  then have "handles_ok (s\<lparr>rowerClasses := classAdd ''animating'' (rowerClasses s)\<rparr>)"
    by (simp add: handles_ok_def)
  with K_startAnimation show ?thesis
    by (simp add: handles_ok_triggerAnimationIteration)
next
  case K_playSounds_drive
  assume "handles_ok s"
  then have "handles_ok (playRecoverSound s)"
    by (simp add: handles_ok_def playRecoverSound_def)
  with K_playSounds_drive show ?thesis
    by (simp add: Let_def handles_ok_wait)
next
  case K_playSounds_recover
  assume "handles_ok s"
  with K_playSounds_recover show ?thesis by simp
next
  case K_changeColors
  assume "handles_ok s"
  then have "handles_ok (s\<lparr>rowerClasses := classAdd ''finish'' (rowerClasses s)\<rparr>)"
    by (simp add: handles_ok_def)
  with K_changeColors show ?thesis
    by (simp add: showFinishColor_def handles_ok_wait)
next
  case K_showCatchColor
  assume "handles_ok s"
  with K_showCatchColor show ?thesis by (simp add: handles_ok_def)
next
  case K_showFinishColor
  assume "handles_ok s"
  with K_showFinishColor show ?thesis by (simp add: handles_ok_def)
qed

lemma handles_ok_timerFires: "handles_ok s \<Longrightarrow> handles_ok (timerFires h s)"
proof -
  assume a: "handles_ok s"
  have "handles_ok (s\<lparr>timers := filter (\<lambda>t. fst t \<noteq> h) (timers s)\<rparr>)"
    by (rule handles_ok_filter[where P = "\<lambda>t. fst t \<noteq> h", OF _ _ _ a]) simp_all
  then show ?thesis
    using a by (simp add: timerFires_def handles_ok_resume split: list.splits)
qed

lemma resetInputs_timers:
  "timers (resetInputs s) = timers (stopAnimation s)"
  by (simp add: resetInputs_def Let_def setPaceSetting_def)

lemma handles_ok_resetInputs: "handles_ok s \<Longrightarrow> handles_ok (resetInputs s)"
proof -
  assume "handles_ok s"
  then have "handles_ok (stopAnimation s)" by (rule handles_ok_stopAnimation)
  moreover have "handles_ok (resetInputs s) = handles_ok (stopAnimation s)"
    by (rule handles_ok_cong) (simp_all add: resetInputs_timers)
  ultimately show ?thesis by simp
qed

lemma handles_ok_setPaceSetting [simp]:
  "handles_ok (setPaceSetting key v s) = handles_ok s"
  by (rule handles_ok_cong) simp_all

lemma handles_ok_addToPreviousSettings [simp]:
  "handles_ok (addToPreviousSettings setting s) = handles_ok s"
  by (rule handles_ok_cong) (simp_all add: addToPreviousSettings_def)

lemma handles_ok_updateAnimationCode [simp]:
  "handles_ok (updateAnimationCode s) = handles_ok s"
  by (rule handles_ok_cong) (simp_all add: updateAnimationCode_def)

lemma updatePaceSetting_returns:
  assumes "updatePaceSetting setting s = Inr s'"
  shows "(\<exists>key v. s' = setPaceSetting key v s) \<or> (\<exists>line. s' = s\<lparr>console := console s @ [line]\<rparr>)"
  using assms
  by (auto simp: updatePaceSetting_def paceSettingUpdateFunctions_def recalculateCadence_def
      recalculateDriveTime_def recalculateRecoverTime_def Let_def
      split: option.splits if_splits)

lemma handles_ok_updatePaceSetting:
  assumes "handles_ok s" and "updatePaceSetting setting s = Inr s'"
  shows "handles_ok s'"
  using updatePaceSetting_returns[OF assms(2)]
proof (elim disjE exE)
  fix key v
  assume "s' = setPaceSetting key v s"
  with assms(1) show ?thesis by simp
next
  fix line
  assume "s' = s\<lparr>console := console s @ [line]\<rparr>"
  with assms(1) show ?thesis by (simp add: handles_ok_def)
qed

lemma handles_ok_inputUpdated:
  assumes "handles_ok s"
  shows "handles_ok
           (case inputUpdated thisId thisValue s of Inl thrown \<Rightarrow> snd thrown | Inr s' \<Rightarrow> s')"
proof -
  let ?s3 = "setPaceSetting thisId (parseFloat thisValue)
               (addToPreviousSettings thisId (stopAnimation s))"
  have ok3: "handles_ok ?s3" using assms by (simp add: handles_ok_stopAnimation)
  show ?thesis
  proof (cases "inputUpdated thisId thisValue s")
    case (Inl thrown)
    obtain e s' where t: "thrown = (e, s')" by (cases thrown)
    with Inl have "updatePaceSetting (findRemainingInput ?s3) ?s3 = Inl (e, s')"
      by (auto simp: inputUpdated_def Let_def split: if_splits sum.splits)
    then have "s' = resetInputs ?s3" by (rule updatePaceSetting_throws)
    with ok3 Inl t show ?thesis by (simp add: handles_ok_resetInputs)
  next
    case (Inr s')
    then consider (bail) "s' = ?s3"
      | (derived) s4 where "updatePaceSetting (findRemainingInput ?s3) ?s3 = Inr s4"
          and "s' = updateAnimationCode s4"
      by (auto simp: inputUpdated_def Let_def split: if_splits sum.splits)
    then have "handles_ok s'"
    proof cases
      case bail
      with ok3 show ?thesis by simp
    next
      case derived
      from handles_ok_updatePaceSetting[OF ok3 derived(1)] derived(2) show ?thesis by simp
    qed
    with Inr show ?thesis by simp
  qed
qed

lemma handles_ok_step: "handles_ok s \<Longrightarrow> handles_ok (step ev s)"
proof (cases ev)
  case (Elapse n)
  assume "handles_ok s"
  with Elapse show ?thesis by (simp add: handles_ok_def)
qed (simp_all add: handles_ok_toggleStartStop handles_ok_resetInputs handles_ok_inputUpdated
    handles_ok_triggerAnimationIteration handles_ok_timerFires)

lemma handles_ok_run: "handles_ok s \<Longrightarrow> handles_ok (run es s)"
  unfolding run_def by (induction es arbitrary: s) (simp_all add: handles_ok_step)

lemma handles_ok_startup: "handles_ok startup"
  unfolding startup_def
  by (rule handles_ok_resetInputs) (simp add: handles_ok_def declared_def)

section \<open>The claims on the recency buffer and on edits\<close>

text \<open>
  C8. The recency buffer is a two-slot ordered buffer that every edit preserves:
  pushing the name that is already the most recent entry leaves the state unchanged,
  pushing another name drops the oldest entry and appends the new one, and after any
  sequence of events (edits, resets, clicks, animation and timer events) from start-up
  the buffer has exactly two slots, so it never holds more than two names.
\<close>

theorem recency_buffer_holds_two:
  "(previousSettings s = [a, b] \<longrightarrow> addToPreviousSettings b s = s)
   \<and> (previousSettings s = [a, b] \<and> setting \<noteq> b \<longrightarrow>
        previousSettings (addToPreviousSettings setting s) = [b, setting])
   \<and> length (previousSettings (run es startup)) = 2"
  using addToPreviousSettings_same[of s a b] addToPreviousSettings_other[of s a b setting]
    run_length[of startup es]
  by (simp add: startup_pace)

theorem recency_buffer_holds_two_witness:
  "previousSettings
       (run [InputEdited ''cadence'' ''20'', InputEdited ''driveTime'' ''2''] startup) =
     [''cadence'', ''driveTime'']
   \<and> addToPreviousSettings ''driveTime''
       (run [InputEdited ''cadence'' ''20'', InputEdited ''driveTime'' ''2''] startup) =
     run [InputEdited ''cadence'' ''20'', InputEdited ''driveTime'' ''2''] startup
   \<and> previousSettings
       (addToPreviousSettings ''recoverTime''
          (run [InputEdited ''cadence'' ''20'', InputEdited ''driveTime'' ''2''] startup)) =
     [''driveTime'', ''recoverTime'']
   \<and> length (previousSettings (run [ClickReset, InputEdited ''cadence'' ''20''] startup)) = 2"
proof -
  let ?s = "run [InputEdited ''cadence'' ''20'', InputEdited ''driveTime'' ''2''] startup"
  have p: "previousSettings ?s = [''cadence'', ''driveTime'']" by code_simp
  have n: "''recoverTime'' \<noteq> ''driveTime''" by simp
  from recency_buffer_holds_two
         [of ?s "''cadence''" "''driveTime''" "''driveTime''" "[]"]
       recency_buffer_holds_two
         [of ?s "''cadence''" "''driveTime''" "''recoverTime''"
             "[ClickReset, InputEdited ''cadence'' ''20'']"]
       p n
  show ?thesis by blast
qed

text \<open>
  C7. While fewer than two distinct fields have been edited (the recency buffer holds no
  name, or only the name of the field being edited), \<^verbatim>\<open>inputUpdated\<close> stores the
  parsed value under the edited field and returns without deriving anything: the other
  properties of \<^verbatim>\<open>paceSettings\<close> are untouched. So after any sequence of edits of one
  field from start-up, that field holds the last parsed value and the two other fields
  still read 0.
\<close>

theorem single_field_edits_derive_nothing:
  "(previousSettings s = ['''', x] \<and> (x = '''' \<or> x = f) \<longrightarrow>
      (\<exists>s'. inputUpdated f v s = Inr s'
            \<and> paceSettings s' = AList.update f (parseFloat v) (paceSettings s)
            \<and> previousSettings s' = ['''', f]))
   \<and> previousSettings (run (map (InputEdited f) raws) startup) =
        ['''', if raws = [] then '''' else f]
   \<and> paceSettings (run (map (InputEdited f) raws) startup) =
        (if raws = [] then paceSettings startup
         else AList.update f (parseFloat (last raws)) (paceSettings startup))
   \<and> (\<forall>g \<in> {''cadence'', ''driveTime'', ''recoverTime''}.
         g \<noteq> f \<longrightarrow> paceSetting (run (map (InputEdited f) raws) startup) g = Fin 0)"
proof (intro conjI impI ballI)
  assume "previousSettings s = ['''', x] \<and> (x = '''' \<or> x = f)"
  then show "\<exists>s'. inputUpdated f v s = Inr s'
            \<and> paceSettings s' = AList.update f (parseFloat v) (paceSettings s)
            \<and> previousSettings s' = ['''', f]"
    using inputUpdated_first_field[of s x f v] by blast
next
  show "previousSettings (run (map (InputEdited f) raws) startup) =
        ['''', if raws = [] then '''' else f]"
    using single_field_run[of f raws] by blast
next
  show "paceSettings (run (map (InputEdited f) raws) startup) =
        (if raws = [] then paceSettings startup
         else AList.update f (parseFloat (last raws)) (paceSettings startup))"
    using single_field_run[of f raws] by blast
next
  fix g
  assume g: "g \<in> {''cadence'', ''driveTime'', ''recoverTime''}" and ne: "g \<noteq> f"
  have "paceSettings (run (map (InputEdited f) raws) startup) =
        (if raws = [] then paceSettings startup
         else AList.update f (parseFloat (last raws)) (paceSettings startup))"
    using single_field_run[of f raws] by blast
  then have "map_of (paceSettings (run (map (InputEdited f) raws) startup)) g =
      map_of (paceSettings startup) g"
    using ne by (simp add: update_conv')
  with g show "paceSetting (run (map (InputEdited f) raws) startup) g = Fin 0"
    by (auto simp: paceSetting_def startup_pace)
qed

theorem single_field_edits_derive_nothing_witness:
  "previousSettings startup = ['''', '''']
   \<and> (\<exists>s'. inputUpdated ''cadence'' ''20'' startup = Inr s'
         \<and> paceSettings s' = AList.update ''cadence'' (parseFloat ''20'') (paceSettings startup)
         \<and> previousSettings s' = ['''', ''cadence''])
   \<and> paceSetting (run (map (InputEdited ''cadence'') [''20'', ''25'']) startup) ''driveTime''
       = Fin 0
   \<and> paceSetting (run (map (InputEdited ''cadence'') [''20'', ''25'']) startup) ''recoverTime''
       = Fin 0
   \<and> paceSetting (run (map (InputEdited ''cadence'') [''20'', ''25'']) startup) ''cadence''
       = Fin 25"
proof -
  have p: "previousSettings startup = ['''', '''']" by (rule startup_pace)
  have c: "paceSetting (run (map (InputEdited ''cadence'') [''20'', ''25'']) startup) ''cadence''
       = Fin 25"
    by code_simp
  from single_field_edits_derive_nothing
         [of startup "''''" "''cadence''" "''20''" "[''20'', ''25'']"] p c
  show ?thesis by simp
qed

section \<open>The claims on timers\<close>

text \<open>
  C9. The handle map holds one handle for each label. When \<^verbatim>\<open>wait(ms, label)\<close> is
  called while the timeout stored under the same label is still pending, the stored
  handle is replaced by the new one: the earlier handle is stored under no label any
  more, and the earlier timeout is still pending after \<^verbatim>\<open>stopAnimation()\<close>. This holds
  in every well-formed state, and every state reached from start-up is well-formed
  (\<open>handles_ok_run\<close>, \<open>handles_ok_startup\<close>), as is every state \<^verbatim>\<open>wait\<close> leaves
  (\<open>handles_ok_wait\<close>).
\<close>

theorem wait_replaces_stored_handle:
  assumes ok: "handles_ok s"
    and stored: "map_of (timeoutIDs s) l = Some h"
    and pending: "(h, due, k) \<in> set (timers s)"
  shows "map_of (timeoutIDs (wait ms l k' s)) l = Some (nextHandle s)
     \<and> nextHandle s \<noteq> h
     \<and> distinct (map fst (timeoutIDs (wait ms l k' s)))
     \<and> h \<notin> snd ` set (timeoutIDs (wait ms l k' s))
     \<and> (h, due, k) \<in> set (timers (stopAnimation (wait ms l k' s)))"
proof -
  from stored have mem: "(l, h) \<in> set (timeoutIDs s)" by (rule map_of_SomeD)
  with ok have lt: "h < nextHandle s" by (auto simp: handles_ok_def)
  have notin: "h \<notin> snd ` set (timeoutIDs (wait ms l k' s))"
  proof
    assume "h \<in> snd ` set (timeoutIDs (wait ms l k' s))"
    then obtain l' where in': "(l', h) \<in> set (AList.update l (nextHandle s) (timeoutIDs s))"
      by (auto simp: wait_def)
    from update_entries[OF in'] lt have old: "(l', h) \<in> set (timeoutIDs s)" by auto
    from ok have dv: "distinct (map snd (timeoutIDs s))" by (simp add: handles_ok_def)
    from dv mem old have "l' = l"
      by (metis distinct_map eq_key_imp_eq_value fst_conv inj_onD snd_conv)
    moreover from ok have "distinct (map fst (AList.update l (nextHandle s) (timeoutIDs s)))"
      by (simp add: handles_ok_def distinct_update)
    then have "map_of (AList.update l (nextHandle s) (timeoutIDs s)) l' = Some h"
      using in' by simp
    ultimately show False using lt by (simp add: update_conv')
  qed
  have "(h, due, k) \<in> set (timers (wait ms l k' s))" using pending by (simp add: wait_def)
  with notin have "(h, due, k) \<in> set (timers (stopAnimation (wait ms l k' s)))"
    by (simp add: stopAnimation_eq)
  moreover have "map_of (timeoutIDs (wait ms l k' s)) l = Some (nextHandle s)"
    by (simp add: wait_def update_conv')
  moreover from ok have "distinct (map fst (timeoutIDs (wait ms l k' s)))"
    by (simp add: wait_def handles_ok_def distinct_update)
  ultimately show ?thesis using lt notin by simp
qed

theorem wait_replaces_stored_handle_witness:
  "map_of (timeoutIDs (run (take 5 stroke_overlap_session) startup)) ''sounds'' = Some 1
   \<and> (1, 63400, K_playSounds_drive) \<in> set (timers (run (take 5 stroke_overlap_session) startup))
   \<and> map_of (timeoutIDs
        (wait (Fin 60100) ''sounds'' K_playSounds_drive
           (run (take 5 stroke_overlap_session) startup))) ''sounds'' = Some 4
   \<and> (1, 63400, K_playSounds_drive) \<in>
       set (timers (stopAnimation
         (wait (Fin 60100) ''sounds'' K_playSounds_drive
            (run (take 5 stroke_overlap_session) startup))))"
proof -
  let ?s = "run (take 5 stroke_overlap_session) startup"
  have ok: "handles_ok ?s" by (rule handles_ok_run[OF handles_ok_startup])
  have st: "map_of (timeoutIDs ?s) ''sounds'' = Some 1" by code_simp
  have pe: "(1, 63400, K_playSounds_drive) \<in> set (timers ?s)" by code_simp
  have nx: "nextHandle ?s = 4" by code_simp
  from wait_replaces_stored_handle[OF ok st pe, of "Fin 60100" K_playSounds_drive] st pe nx
  show ?thesis by simp
qed

text \<open>
  C1, which the program does not meet. \<^verbatim>\<open>stopAnimation\<close> clears the timeouts whose
  handles are stored in \<^verbatim>\<open>timeoutIDs\<close>; a timeout whose label was taken over by a later
  \<^verbatim>\<open>wait\<close> is not among them. In the session \<open>stroke_overlap_session\<close> the second stroke
  begins while the first stroke's \<^verbatim>\<open>"sounds"\<close> and \<^verbatim>\<open>"colorChange"\<close> timeouts (handles 1
  and 3) are pending. After the click on stop the animation is off, no class is set and
  no audio plays, and those two timeouts are still pending. 50 ms later they fire: the
  finish sound plays and the rower gets the class \<^verbatim>\<open>finish\<close>.
\<close>

theorem stopAnimation_leaves_replaced_timeouts:
  "animationPlaying (run stroke_overlap_session startup) = False
   \<and> rowerClasses (run stroke_overlap_session startup) = []
   \<and> finishAudio (run stroke_overlap_session startup) = False
   \<and> timers (run stroke_overlap_session startup) =
       [(1, 63400, K_playSounds_drive), (3, 63400, K_changeColors)]
   \<and> finishAudio
       (run [Elapse 50, TimerFires 1, TimerFires 3] (run stroke_overlap_session startup)) = True
   \<and> rowerClasses
       (run [Elapse 50, TimerFires 1, TimerFires 3] (run stroke_overlap_session startup)) =
       [''finish'']"
  by code_simp

text \<open>
  C2, which the program does not meet. \<^verbatim>\<open>Number.parseFloat\<close> gives not-a-number for
  an empty or non-numeric text, and \<^verbatim>\<open>inputUpdated\<close> stores that value as it is, not 0.
  After the cadence input is emptied and a drive time of 2 is entered, the derived
  recover time is not-a-number too, and, since not-a-number is not \<^verbatim>\<open>== 0\<close>, the guard of
  \<^verbatim>\<open>toggleStartStop\<close> lets the animation start. The reset button, which empties the
  inputs, stores 0.
\<close>

theorem inputUpdated_stores_NaN_for_empty_input:
  "parseFloat '''' = NaN
   \<and> parseFloat ''abc'' = NaN
   \<and> paceSetting (run [InputEdited ''cadence'' ''''] startup) ''cadence'' = NaN
   \<and> paceSetting (run [InputEdited ''cadence'' '''', InputEdited ''driveTime'' ''2''] startup)
        ''recoverTime'' = NaN
   \<and> animationPlaying
       (run [InputEdited ''cadence'' '''', InputEdited ''driveTime'' ''2'', ClickStartStop] startup)
     = True
   \<and> paceSetting (run [InputEdited ''cadence'' ''20'', ClickReset] startup) ''cadence'' = Fin 0"
  by code_simp

end
